theory Spec2Isabelle
  imports Complex_Main
begin

section \<open>Data model\<close>

text \<open>
  The dashboard script \<^verbatim>\<open>streamlit_app.py\<close> reads a table of listings and, in its
  last section, estimates a nightly price from a city, a room type and a stay.

  A listing is one row of the table: the three columns the estimator reads.
  Python floats are taken as real numbers, with one extra value for the
  missing number \<^verbatim>\<open>NaN\<close> that an aggregation over no rows gives; rounding of
  binary floating point is not part of the model.
\<close>

record listing =
  city :: string
  room_type :: string
  price :: real

datatype pyfloat = Float real | NaN

text \<open>
  The value of a select box: one of its options, or nothing when it has no
  option to offer.
\<close>

type_synonym selection = "string option"

text \<open>
  A calendar date is its proleptic Gregorian ordinal, the number that
  \<^verbatim>\<open>date.toordinal()\<close> gives: day 1 is 0001-01-01, a Monday. Adding
  \<^verbatim>\<open>timedelta(days=1)\<close> adds one, the difference of two dates in days is the
  difference of their ordinals, and dates compare as their ordinals do.
\<close>

type_synonym date = int

section \<open>The calendar\<close>

definition is_leap :: "int \<Rightarrow> bool" where
  "is_leap y = (y mod 4 = 0 \<and> (y mod 100 \<noteq> 0 \<or> y mod 400 = 0))"

definition days_before_year :: "int \<Rightarrow> int" where
  "days_before_year y =
     (let p = y - 1 in p * 365 + p div 4 - p div 100 + p div 400)"

text \<open>
  The days of a year that lie before the first day of month \<open>m\<close> (1 to 12);
  \<open>leap\<close> says whether the year is a leap year.
\<close>

definition days_before_month :: "bool \<Rightarrow> int \<Rightarrow> int" where
  "days_before_month leap m =
     [0, 31, 59, 90, 120, 151, 181, 212, 243, 273, 304, 334] ! nat (m - 1)
       + (if 2 < m \<and> leap then 1 else 0)"

text \<open>The ordinal of the date with year \<open>y\<close>, month \<open>m\<close> and day \<open>d\<close>.\<close>

definition ymd2ord :: "int \<Rightarrow> int \<Rightarrow> int \<Rightarrow> date" where
  "ymd2ord y m d = days_before_year y + days_before_month (is_leap y) m + d"

text \<open>
  The year, month and day of an ordinal: whole 400-year, 100-year and 4-year
  cycles are taken off first, then whole years, and the month is found from
  the day of the year.
\<close>

definition month_of_yday :: "bool \<Rightarrow> int \<Rightarrow> int" where
  "month_of_yday leap n =
     (case find (\<lambda>m. n < days_before_month leap (m + 1)) [1, 2, 3, 4, 5, 6, 7, 8, 9, 10, 11] of
        Some m \<Rightarrow> m
      | None \<Rightarrow> 12)"

definition ord2ymd :: "date \<Rightarrow> int \<times> int \<times> int" where
  "ord2ymd n =
     (let n0 = n - 1;
          n400 = n0 div 146097; r400 = n0 mod 146097;
          n100 = r400 div 36524; r100 = r400 mod 36524;
          n4 = r100 div 1461; r4 = r100 mod 1461;
          n1 = r4 div 365; r1 = r4 mod 365;
          y = n400 * 400 + 1 + n100 * 100 + n4 * 4 + n1
      in if n1 = 4 \<or> n100 = 4 then (y - 1, 12, 31)
         else
           (let leap = (n1 = 3 \<and> (n4 \<noteq> 24 \<or> n100 = 3));
                m = month_of_yday leap r1
            in (y, m, r1 - days_before_month leap m + 1)))"

definition month :: "date \<Rightarrow> int" where
  "month d = (case ord2ymd d of (y, m, dd) \<Rightarrow> m)"

text \<open>\<^verbatim>\<open>d.weekday()\<close>: Monday is 0 and Sunday is 6.\<close>

definition weekday :: "date \<Rightarrow> int" where
  "weekday d = (d + 6) mod 7"

section \<open>The estimator\<close>

text \<open>
  \<^verbatim>\<open>subset["price"].median()\<close>: the middle value of the sorted prices, the
  mean of the two middle values when their number is even, and \<^verbatim>\<open>NaN\<close> when
  there is no price.
\<close>

definition median :: "real list \<Rightarrow> pyfloat" where
  "median xs =
     (let s = sort xs; n = length s
      in if n = 0 then NaN
         else if odd n then Float (s ! (n div 2))
         else Float ((s ! (n div 2 - 1) + s ! (n div 2)) / 2))"

text \<open>
  Step 1 of the estimator (lines 150 to 157): the rows of the selected city and
  room type; when there is none, the rows of the city; when there is none
  again, every row. The base price is the median price of what is left.
\<close>

definition base_price :: "listing list \<Rightarrow> selection \<Rightarrow> selection \<Rightarrow> pyfloat" where
  "base_price df city_val room_type_val =
     (let subset = filter (\<lambda>r. Some (city r) = city_val \<and>
                                Some (room_type r) = room_type_val) df;
          subset = (if length subset = 0
                    then filter (\<lambda>r. Some (city r) = city_val) df else subset);
          subset = (if length subset = 0 then df else subset)
      in median (map price subset))"

text \<open>
  \<^verbatim>\<open>pd.date_range(start, end)\<close> with its daily step: every date from \<open>start\<close>
  to \<open>end\<close>, both included, and no date when \<open>end\<close> is before \<open>start\<close>.
\<close>

function date_range :: "date \<Rightarrow> date \<Rightarrow> date list" where
  "date_range start end = (if end < start then [] else start # date_range (start + 1) end)"
  by pat_completeness auto
termination
  by (relation "measure (\<lambda>(s, e). nat (e + 1 - s))") auto

declare date_range.simps [simp del]

text \<open>Line 160: the range ends one day before the check-out date.\<close>

definition stay_dates :: "date \<Rightarrow> date \<Rightarrow> date list" where
  "stay_dates check_in check_out = date_range check_in (check_out - 1)"

text \<open>Lines 162 to 173: the three bumps are applied one after the other.\<close>

definition date_multiplier :: "date \<Rightarrow> real" where
  "date_multiplier d =
     (let m = 1.0;
          m = (if weekday d \<in> set [4, 5] then m * 1.30 else m);
          m = (if month d \<in> set [6, 7, 8] then m * 1.20 else m);
          m = (if month d = 12 then m * 1.40 else m)
      in m)"

text \<open>Lines 175 to 179: the mean of the multipliers, and 1.0 for a stay of no night.\<close>

definition avg_mult :: "date list \<Rightarrow> real" where
  "avg_mult ds =
     (if length ds > 0
      then (let mults = map date_multiplier ds
            in sum_list mults / real (length mults))
      else 1.0)"

text \<open>A float times a number: \<^verbatim>\<open>NaN\<close> stays \<^verbatim>\<open>NaN\<close>.\<close>

fun fmul :: "pyfloat \<Rightarrow> real \<Rightarrow> pyfloat" where
  "fmul NaN k = NaN"
| "fmul (Float x) k = Float (x * k)"

record estimate =
  adjusted_price :: pyfloat
  nights :: int

text \<open>Lines 150 to 182, what the success message then shows.\<close>

definition estimator ::
  "listing list \<Rightarrow> selection \<Rightarrow> selection \<Rightarrow> date \<Rightarrow> date \<Rightarrow> estimate" where
  "estimator df city_val room_type_val check_in check_out =
     \<lparr> adjusted_price =
         fmul (base_price df city_val room_type_val)
              (avg_mult (stay_dates check_in check_out)),
       nights = check_out - check_in \<rparr>"

section \<open>The script\<close>

text \<open>
  The table as the script sees it: the names of its columns and its rows. A
  field of a row whose column the table does not have is never read.
\<close>

record dataframe =
  columns :: "string list"
  rows :: "listing list"

text \<open>
  What one run of the script is given: the table in the file (\<open>None\<close> when
  the file does not exist), the values of the two select boxes and of the two
  date inputs, and whether the button was pressed.
\<close>

record session =
  csv :: "dataframe option"
  city_val :: selection
  room_type_val :: selection
  check_in :: date
  check_out :: date
  button :: bool

datatype message =
    File_not_found
  | Room_type_column_not_found
  | City_column_not_found
  | Need_city_and_room_type
  | Check_out_must_be_after_check_in

datatype chart = Price_histogram | Room_type_bar | Room_type_pie | City_bar

text \<open>
  What a run puts on the page, in order. The success box holds what its text
  is formatted from: the estimate, the room type and the city.
\<close>

datatype element =
    Title
  | Error_box message
  | Loaded_text nat nat
  | Table_head
  | Subheader_charts
  | Plotly_chart chart
  | Info_box message
  | Subheader_predictor
  | Selectbox_city
  | Selectbox_room_type
  | Date_input_check_in
  | Date_input_check_out
  | Warning_box message
  | Button
  | Success_box estimate selection selection

datatype error = KeyError string

text \<open>Lines 15 to 21: a missing file raises.\<close>

definition load_data :: "dataframe option \<Rightarrow> message + dataframe" where
  "load_data file = (case file of None \<Rightarrow> Inl File_not_found | Some df \<Rightarrow> Inr df)"

text \<open>
  Lines 32 to 114: the four charts. The histogram is always drawn; the charts
  by room type and by city are drawn when the table has the column, and an
  information box stands for the bar chart otherwise. What a chart shows is
  left to the plotting library: a chart is one element, and drawing it is
  taken not to fail.
\<close>

definition charts :: "dataframe \<Rightarrow> element list" where
  "charts df =
     [Subheader_charts, Plotly_chart Price_histogram]
     @ (if ''room_type'' \<in> set (columns df) then [Plotly_chart Room_type_bar]
        else [Info_box Room_type_column_not_found])
     @ (if ''room_type'' \<in> set (columns df) then [Plotly_chart Room_type_pie] else [])
     @ (if ''city'' \<in> set (columns df) then [Plotly_chart City_bar]
        else [Info_box City_column_not_found])"

text \<open>
  Lines 117 to 192: the predictor section. The button is offered, and the
  estimator run when it is pressed, only in the branch where the check-out
  date is after the check-in date.
\<close>

definition predictor :: "dataframe \<Rightarrow> session \<Rightarrow> element list" where
  "predictor df s =
     Subheader_predictor #
     (if ''city'' \<in> set (columns df) \<and> ''room_type'' \<in> set (columns df)
      then
        [Selectbox_city, Selectbox_room_type, Date_input_check_in, Date_input_check_out]
        @ (if check_out s \<le> check_in s
           then [Warning_box Check_out_must_be_after_check_in]
           else Button #
             (if button s
              then [Success_box
                      (estimator (rows df) (city_val s) (room_type_val s)
                         (check_in s) (check_out s))
                      (room_type_val s) (city_val s)]
              else []))
      else [Info_box Need_city_and_room_type])"

text \<open>
  The whole run. A file that cannot be loaded ends the run after the error
  box (lines 23 to 27); reading the price column of a table that has none
  raises at line 38.
\<close>

definition run :: "session \<Rightarrow> error + element list" where
  "run s =
     (case load_data (csv s) of
        Inl e \<Rightarrow> Inr [Title, Error_box e]
      | Inr df \<Rightarrow>
          if ''price'' \<notin> set (columns df) then Inl (KeyError ''price'')
          else Inr ([Title, Loaded_text (length (rows df)) (length (columns df)), Table_head]
                    @ charts df @ predictor df s))"

text \<open>The three listings of the specification's scenarios.\<close>

definition scenario :: "listing list" where
  "scenario =
     [\<lparr>city = ''A'', room_type = ''Entire home'', price = 100\<rparr>,
      \<lparr>city = ''A'', room_type = ''Private room'', price = 50\<rparr>,
      \<lparr>city = ''B'', room_type = ''Entire home'', price = 200\<rparr>]"

text \<open>
  Tables and sessions for the examples: a table with the three columns and no
  row, the scenario table, and the scenario table without its city column.
\<close>

definition empty_table :: dataframe where
  "empty_table = \<lparr>columns = [''city'', ''room_type'', ''price''], rows = []\<rparr>"

definition empty_session :: session where
  "empty_session =
     \<lparr>csv = Some empty_table, city_val = None, room_type_val = None,
      check_in = 738887, check_out = 738888, button = True\<rparr>"

definition scenario_table :: dataframe where
  "scenario_table = \<lparr>columns = [''city'', ''room_type'', ''price''], rows = scenario\<rparr>"

definition same_day_session :: session where
  "same_day_session =
     \<lparr>csv = Some scenario_table, city_val = Some ''A'', room_type_val = Some ''Entire home'',
      check_in = 738890, check_out = 738890, button = True\<rparr>"

definition no_city_table :: dataframe where
  "no_city_table = \<lparr>columns = [''room_type'', ''price''], rows = scenario\<rparr>"

definition no_city_session :: session where
  "no_city_session =
     \<lparr>csv = Some no_city_table, city_val = None, room_type_val = None,
      check_in = 738887, check_out = 738888, button = True\<rparr>"

text \<open>A table of one listing whose price is negative.\<close>

definition negative_table :: "listing list" where
  "negative_table = [\<lparr>city = ''A'', room_type = ''Entire home'', price = - 100\<rparr>]"

text \<open>Whether an element is a success box.\<close>

fun is_success :: "element \<Rightarrow> bool" where
  "is_success (Success_box e r c) = True"
| "is_success _ = False"

section \<open>The nights of a stay\<close>

lemma date_range_upto: "date_range s e = [s..e]"
proof (induction s e rule: date_range.induct)
  case (1 s e)
  show ?case
  proof (cases "e < s")
    case True
    then show ?thesis by (simp add: date_range.simps)
  next
    case False
    then have "date_range s e = s # date_range (s + 1) e"
      by (simp add: date_range.simps)
    also have "\<dots> = s # [s + 1..e]" using 1 False by simp
    also have "\<dots> = [s..e]" using False by (simp add: upto_rec1)
    finally show ?thesis .
  qed
qed

lemma set_stay_dates: "set (stay_dates ci co) = {d. ci \<le> d \<and> d < co}"
  by (auto simp: stay_dates_def date_range_upto)

lemma length_stay_dates: "length (stay_dates ci co) = nat (co - ci)"
  by (simp add: stay_dates_def date_range_upto)

lemma distinct_stay_dates: "distinct (stay_dates ci co)"
  by (simp add: stay_dates_def date_range_upto)

lemma sorted_stay_dates: "sorted (stay_dates ci co)"
  by (simp add: stay_dates_def date_range_upto)

lemma stay_dates_one_night: "stay_dates x (x + 1) = [x]"
  by (simp add: stay_dates_def date_range.simps)

text \<open>
  Claim C3. When the check-out date is after the check-in date, the nights
  the estimator enumerates are exactly the dates from the check-in date up to
  the day before the check-out date, each once and in order: the check-in
  date is one of them, the day before check-out is one of them, the check-out
  date is not, and a stay from a day to the next is that one day.
\<close>

theorem stay_dates_half_open:
  "ci < co \<Longrightarrow>
     set (stay_dates ci co) = {d. ci \<le> d \<and> d < co}
     \<and> distinct (stay_dates ci co)
     \<and> sorted (stay_dates ci co)
     \<and> ci \<in> set (stay_dates ci co)
     \<and> co - 1 \<in> set (stay_dates ci co)
     \<and> co \<notin> set (stay_dates ci co)
     \<and> stay_dates ci (ci + 1) = [ci]"
  by (simp add: set_stay_dates distinct_stay_dates sorted_stay_dates stay_dates_one_night)

text \<open>The three nights of a stay from 2024-01-02 to 2024-01-05.\<close>

theorem stay_dates_half_open_witness:
  "(738887::int) < 738890
   \<and> stay_dates 738887 738890 = [738887, 738888, 738889]
   \<and> set (stay_dates 738887 738890) = {d. 738887 \<le> d \<and> d < 738890}
   \<and> 738890 \<notin> set (stay_dates 738887 738890)
   \<and> stay_dates 738887 (738887 + 1) = [738887]"
  using stay_dates_half_open [of 738887 738890]
  by (simp add: stay_dates_def date_range.simps)

text \<open>
  Claim C8. The list of nights is non-empty exactly when the check-out date
  is after the check-in date. Under that precondition the average is the
  mean of the multipliers, so the branch that sets it to 1.0 is not taken;
  that branch is taken exactly when the check-out date is not after the
  check-in date, where the list is empty.
\<close>

theorem zero_nights_branch:
  "(0 < length (stay_dates ci co)) = (ci < co)
   \<and> (ci < co \<longrightarrow>
        avg_mult (stay_dates ci co)
          = sum_list (map date_multiplier (stay_dates ci co))
              / real (length (stay_dates ci co)))
   \<and> (co \<le> ci \<longrightarrow>
        stay_dates ci co = []
        \<and> avg_mult (stay_dates ci co) = 1)"
proof -
  have len: "(0 < length (stay_dates ci co)) = (ci < co)"
    by (simp add: length_stay_dates)
  show ?thesis using len by (auto simp: avg_mult_def)
qed

text \<open>
  A stay of one night, 2024-01-02 to 2024-01-03, and a check-out on the
  check-in date.
\<close>

theorem zero_nights_branch_witness:
  "(738887::int) < 738888
   \<and> 0 < length (stay_dates 738887 738888)
   \<and> avg_mult (stay_dates 738887 738888)
       = sum_list (map date_multiplier (stay_dates 738887 738888))
           / real (length (stay_dates 738887 738888))
   \<and> (738888::int) \<le> 738888
   \<and> stay_dates 738888 738888 = []
   \<and> avg_mult (stay_dates 738888 738888) = 1"
  using zero_nights_branch [of 738887 738888] zero_nights_branch [of 738888 738888]
  by auto

section \<open>The multiplier of a night\<close>

lemma december_saturday:
  "weekday (ymd2ord 2023 12 2) = 5 \<and> month (ymd2ord 2023 12 2) = 12"
  by code_simp

lemma july_friday:
  "weekday (ymd2ord 2024 7 5) = 4 \<and> month (ymd2ord 2024 7 5) = 7"
  by code_simp

lemma january_tuesday:
  "weekday (ymd2ord 2024 1 2) = 1 \<and> month (ymd2ord 2024 1 2) = 1"
  by code_simp

text \<open>
  Claim C2. The multiplier of a date is the product of three independent
  factors: 1.30 on a Friday or Saturday (weekday 4 or 5), 1.20 in June, July
  or August, 1.40 in December, and 1 where a factor does not apply. A
  December Friday or Saturday has 1.30 * 1.40 = 1.82, a summer Friday or
  Saturday has 1.30 * 1.20, and a date outside the weekend, the summer and
  December has 1.0.
\<close>

theorem date_multiplier_factors:
  "date_multiplier d =
     (if weekday d = 4 \<or> weekday d = 5 then 1.30 else 1)
     * (if month d = 6 \<or> month d = 7 \<or> month d = 8 then 1.20 else 1)
     * (if month d = 12 then 1.40 else 1)
   \<and> ((weekday d = 4 \<or> weekday d = 5) \<and> month d = 12 \<longrightarrow>
        date_multiplier d = 1.30 * 1.40 \<and> date_multiplier d = 1.82)
   \<and> ((weekday d = 4 \<or> weekday d = 5) \<and> (month d = 6 \<or> month d = 7 \<or> month d = 8) \<longrightarrow>
        date_multiplier d = 1.30 * 1.20)
   \<and> (weekday d \<noteq> 4 \<and> weekday d \<noteq> 5 \<and> month d \<notin> {6, 7, 8, 12} \<longrightarrow>
        date_multiplier d = 1.0)"
  by (simp add: date_multiplier_def)

text \<open>
  Saturday 2023-12-02, Friday 2024-07-05 and Tuesday 2024-01-02.
\<close>

theorem date_multiplier_factors_witness:
  "weekday (ymd2ord 2023 12 2) = 5 \<and> month (ymd2ord 2023 12 2) = 12
   \<and> date_multiplier (ymd2ord 2023 12 2) = 1.82
   \<and> weekday (ymd2ord 2024 7 5) = 4 \<and> month (ymd2ord 2024 7 5) = 7
   \<and> date_multiplier (ymd2ord 2024 7 5) = 1.56
   \<and> weekday (ymd2ord 2024 1 2) = 1 \<and> month (ymd2ord 2024 1 2) = 1
   \<and> date_multiplier (ymd2ord 2024 1 2) = 1"
  using december_saturday july_friday january_tuesday
    date_multiplier_factors [of "ymd2ord 2023 12 2"]
    date_multiplier_factors [of "ymd2ord 2024 7 5"]
    date_multiplier_factors [of "ymd2ord 2024 1 2"]
  by simp

section \<open>The base price\<close>

lemma sort_eq_Nil: "(sort xs = []) = (xs = [])"
  by (metis length_sort length_0_conv)

lemma median_even:
  "xs \<noteq> [] \<Longrightarrow> even (length xs) \<Longrightarrow>
     median xs = Float ((sort xs ! (length xs div 2 - 1) + sort xs ! (length xs div 2)) / 2)"
  by (simp add: median_def Let_def sort_eq_Nil)

lemma median_odd:
  "odd (length xs) \<Longrightarrow> median xs = Float (sort xs ! (length xs div 2))"
  by (auto simp: median_def Let_def sort_eq_Nil)

text \<open>
  Claim C1. The base price follows the ordered fallback chain. When some row
  has the city and the room type of the query, it is the median price of
  exactly those rows. Otherwise, when some row has the city, it is the median
  price of the rows of that city. Otherwise it is the median price of every
  row. The median of an even number of prices is the mean of the two middle
  ones.
\<close>

theorem base_price_fallback_chain:
  "((\<exists>r \<in> set df. Some (city r) = c \<and> Some (room_type r) = t) \<longrightarrow>
      base_price df c t
        = median (map price (filter (\<lambda>r. Some (city r) = c \<and> Some (room_type r) = t) df)))
   \<and> (\<not> (\<exists>r \<in> set df. Some (city r) = c \<and> Some (room_type r) = t)
        \<and> (\<exists>r \<in> set df. Some (city r) = c) \<longrightarrow>
      base_price df c t = median (map price (filter (\<lambda>r. Some (city r) = c) df)))
   \<and> (\<not> (\<exists>r \<in> set df. Some (city r) = c) \<longrightarrow>
      base_price df c t = median (map price df))
   \<and> (\<forall>xs. xs \<noteq> [] \<and> even (length xs) \<longrightarrow>
        median xs
          = Float ((sort xs ! (length xs div 2 - 1) + sort xs ! (length xs div 2)) / 2))"
proof -
  let ?exact = "filter (\<lambda>r. Some (city r) = c \<and> Some (room_type r) = t) df"
  let ?town = "filter (\<lambda>r. Some (city r) = c) df"
  have e: "(?exact = []) = (\<not> (\<exists>r \<in> set df. Some (city r) = c \<and> Some (room_type r) = t))"
    by (simp add: filter_empty_conv)
  have w: "(?town = []) = (\<not> (\<exists>r \<in> set df. Some (city r) = c))"
    by (simp add: filter_empty_conv)
  have 1: "?exact \<noteq> [] \<Longrightarrow> base_price df c t = median (map price ?exact)"
    by (simp add: base_price_def Let_def)
  have 2: "?exact = [] \<Longrightarrow> ?town \<noteq> [] \<Longrightarrow> base_price df c t = median (map price ?town)"
    by (simp add: base_price_def Let_def)
  have 3: "?town = [] \<Longrightarrow> base_price df c t = median (map price df)"
  proof -
    assume a: "?town = []"
    then have "?exact = []" by (auto simp: filter_empty_conv)
    with a show ?thesis by (simp add: base_price_def Let_def)
  qed
  show ?thesis using 1 2 3 e w median_even by blast
qed

text \<open>
  The scenario table: an exact match (100), the city-only fallback for an
  unmatched room type (the median of 100 and 50 is 75, not the median 100 of
  the whole table), and the whole table for an unknown city.
\<close>

theorem base_price_fallback_chain_witness:
  "base_price scenario (Some ''A'') (Some ''Entire home'') = Float 100
   \<and> base_price scenario (Some ''A'') (Some ''Shared room'') = Float 75
   \<and> base_price scenario (Some ''C'') (Some ''Entire home'') = Float 100
   \<and> median [100, 50] = Float ((50 + 100) / 2)"
proof -
  have a: "\<exists>r \<in> set scenario.
             Some (city r) = Some ''A'' \<and> Some (room_type r) = Some ''Entire home''"
    by (simp add: scenario_def)
  have b: "\<not> (\<exists>r \<in> set scenario.
                Some (city r) = Some ''A'' \<and> Some (room_type r) = Some ''Shared room'')
           \<and> (\<exists>r \<in> set scenario. Some (city r) = Some ''A'')"
    by (simp add: scenario_def)
  have c: "\<not> (\<exists>r \<in> set scenario. Some (city r) = Some ''C'')"
    by (simp add: scenario_def)
  have d: "[100, 50 :: real] \<noteq> [] \<and> even (length [100, 50 :: real])" by simp
  note th = base_price_fallback_chain
  have 1: "base_price scenario (Some ''A'') (Some ''Entire home'') = Float 100"
    using a th [of scenario "Some ''A''" "Some ''Entire home''"]
    by (simp add: scenario_def median_def Let_def)
  have 2: "base_price scenario (Some ''A'') (Some ''Shared room'') = Float 75"
    using b th [of scenario "Some ''A''" "Some ''Shared room''"]
    by (simp add: scenario_def median_def Let_def)
  have 3: "base_price scenario (Some ''C'') (Some ''Entire home'') = Float 100"
    using c th [of scenario "Some ''C''" "Some ''Entire home''"]
    by (simp add: scenario_def median_def Let_def)
  have 4: "median [100, 50] = Float ((50 + 100) / 2)"
    using d th [of scenario "Some ''C''" "Some ''Entire home''"] by simp
  show ?thesis using 1 2 3 4 by simp
qed

section \<open>Bounds on the multipliers\<close>

lemma date_multiplier_cases:
  "date_multiplier d \<in> {1, 1.2, 1.3, 1.4, 1.56, 1.82}"
  by (simp add: date_multiplier_def)

lemma date_multiplier_ge: "1 \<le> date_multiplier d"
  by (simp add: date_multiplier_def)

lemma date_multiplier_le: "date_multiplier d \<le> 1.82"
  by (simp add: date_multiplier_def)

lemma sum_list_lower:
  "(\<And>x. x \<in> set xs \<Longrightarrow> a \<le> f x) \<Longrightarrow> a * real (length xs) \<le> sum_list (map f xs)"
proof (induction xs)
  case Nil
  then show ?case by simp
next
  case (Cons x xs)
  have 1: "a \<le> f x" using Cons.prems by simp
  have 2: "a * real (length xs) \<le> sum_list (map f xs)"
    using Cons.IH Cons.prems by simp
  from add_mono [OF 1 2] show ?case by (simp add: algebra_simps)
qed

lemma sum_list_upper:
  "(\<And>x. x \<in> set xs \<Longrightarrow> f x \<le> a) \<Longrightarrow> sum_list (map f xs) \<le> a * real (length xs)"
proof (induction xs)
  case Nil
  then show ?case by simp
next
  case (Cons x xs)
  have 1: "f x \<le> a" using Cons.prems by simp
  have 2: "sum_list (map f xs) \<le> a * real (length xs)"
    using Cons.IH Cons.prems by simp
  from add_mono [OF 1 2] show ?case by (simp add: algebra_simps)
qed

lemma sum_list_uniform:
  "(\<And>x. x \<in> set xs \<Longrightarrow> f x = a) \<Longrightarrow> sum_list (map f xs) = a * real (length xs)"
  by (induction xs) (auto simp: algebra_simps)

lemma avg_mult_bounds: "1 \<le> avg_mult ds \<and> avg_mult ds \<le> 1.82"
proof (cases "ds = []")
  case True
  then show ?thesis by (simp add: avg_mult_def)
next
  case False
  then have pos: "0 < real (length ds)" by simp
  have lo: "1 * real (length ds) \<le> sum_list (map date_multiplier ds)"
    by (rule sum_list_lower) (rule date_multiplier_ge)
  have hi: "sum_list (map date_multiplier ds) \<le> 1.82 * real (length ds)"
    by (rule sum_list_upper) (rule date_multiplier_le)
  have "avg_mult ds = sum_list (map date_multiplier ds) / real (length ds)"
    using False by (simp add: avg_mult_def)
  moreover have "1 \<le> sum_list (map date_multiplier ds) / real (length ds)"
    using lo pos by (simp add: le_divide_eq)
  moreover have "sum_list (map date_multiplier ds) / real (length ds) \<le> 1.82"
    using hi pos by (simp add: divide_le_eq)
  ultimately show ?thesis by simp
qed

lemma avg_mult_uniform:
  assumes "ds \<noteq> []" and "\<And>d. d \<in> set ds \<Longrightarrow> date_multiplier d = k"
  shows "avg_mult ds = k"
proof -
  have "sum_list (map date_multiplier ds) = k * real (length ds)"
    by (rule sum_list_uniform) (simp add: assms)
  then show ?thesis using assms(1) by (simp add: avg_mult_def)
qed

lemma stay_dates_nonempty: "ci < co \<Longrightarrow> stay_dates ci co \<noteq> []"
  using length_stay_dates [of ci co] by auto

section \<open>The estimate\<close>

text \<open>
  Claim C4. When the check-out date is after the check-in date, the estimate
  is the base price times the arithmetic mean of the multipliers of the
  enumerated nights. The count of nights that is reported is the difference
  of the two dates in days, which is also the number of enumerated nights,
  and it does not scale the price: when every night has the same multiplier,
  the estimate is the base price times that multiplier, however many nights
  there are.
\<close>

theorem estimate_is_base_times_mean:
  "ci < co \<Longrightarrow>
     adjusted_price (estimator df c t ci co)
       = fmul (base_price df c t)
           (sum_list (map date_multiplier (stay_dates ci co))
              / real (length (stay_dates ci co)))
     \<and> nights (estimator df c t ci co) = co - ci
     \<and> int (length (stay_dates ci co)) = co - ci
     \<and> (\<forall>k. (\<forall>d \<in> set (stay_dates ci co). date_multiplier d = k) \<longrightarrow>
           adjusted_price (estimator df c t ci co) = fmul (base_price df c t) k)"
proof -
  assume lt: "ci < co"
  then have ne: "stay_dates ci co \<noteq> []" by (rule stay_dates_nonempty)
  have a: "adjusted_price (estimator df c t ci co)
       = fmul (base_price df c t)
           (sum_list (map date_multiplier (stay_dates ci co))
              / real (length (stay_dates ci co)))"
    using ne by (simp add: estimator_def avg_mult_def)
  have b: "nights (estimator df c t ci co) = co - ci"
    by (simp add: estimator_def)
  have c: "int (length (stay_dates ci co)) = co - ci"
    using lt by (simp add: length_stay_dates)
  have d: "\<forall>k. (\<forall>d \<in> set (stay_dates ci co). date_multiplier d = k) \<longrightarrow>
           adjusted_price (estimator df c t ci co) = fmul (base_price df c t) k"
    using ne by (auto simp: estimator_def dest: avg_mult_uniform)
  show ?thesis using a b c d by blast
qed

lemma saturday_sunday:
  "date_multiplier 738891 = 1.3 \<and> date_multiplier 738892 = 1"
  by code_simp

lemma monday_to_wednesday:
  "date_multiplier 738886 = 1 \<and> date_multiplier 738887 = 1 \<and> date_multiplier 738888 = 1"
  by code_simp

lemma base_price_scenario_exact:
  "base_price scenario (Some ''A'') (Some ''Entire home'') = Float 100"
  by (simp add: base_price_def scenario_def median_def Let_def)

text \<open>
  In the scenario table: the two nights of Saturday 2024-01-06 and Sunday
  2024-01-07 have the multipliers 1.30 and 1.0, whose mean is 1.15; the three
  nights from Monday 2024-01-01 all have the multiplier 1.0, and the price is
  the base price.
\<close>

theorem estimate_is_base_times_mean_witness:
  "(738891::int) < 738893
   \<and> stay_dates 738891 738893 = [738891, 738892]
   \<and> sum_list (map date_multiplier (stay_dates 738891 738893))
        / real (length (stay_dates 738891 738893)) = 1.15
   \<and> adjusted_price (estimator scenario (Some ''A'') (Some ''Entire home'') 738891 738893)
        = Float 115
   \<and> nights (estimator scenario (Some ''A'') (Some ''Entire home'') 738891 738893) = 2
   \<and> (738886::int) < 738889
   \<and> adjusted_price (estimator scenario (Some ''A'') (Some ''Entire home'') 738886 738889)
        = Float 100
   \<and> nights (estimator scenario (Some ''A'') (Some ''Entire home'') 738886 738889) = 3"
proof -
  have s2: "stay_dates 738891 738893 = [738891, 738892]"
    by (simp add: stay_dates_def date_range.simps)
  have s3: "stay_dates 738886 738889 = [738886, 738887, 738888]"
    by (simp add: stay_dates_def date_range.simps)
  have u: "\<forall>d \<in> set (stay_dates 738886 738889). date_multiplier d = 1"
    using monday_to_wednesday by (simp add: s3)
  have m: "sum_list (map date_multiplier (stay_dates 738891 738893))
        / real (length (stay_dates 738891 738893)) = 1.15"
    using saturday_sunday by (simp add: s2)
  have lt2: "(738891::int) < 738893" and lt3: "(738886::int) < 738889"
    by simp_all
  note w2 = estimate_is_base_times_mean
    [OF lt2, of scenario "Some ''A''" "Some ''Entire home''"]
  note w3 = estimate_is_base_times_mean
    [OF lt3, of scenario "Some ''A''" "Some ''Entire home''"]
  have p2: "adjusted_price (estimator scenario (Some ''A'') (Some ''Entire home'') 738891 738893)
        = Float 115"
    using w2 m by (simp add: base_price_scenario_exact)
  have n2: "nights (estimator scenario (Some ''A'') (Some ''Entire home'') 738891 738893) = 2"
    using w2 by simp
  have p3: "adjusted_price (estimator scenario (Some ''A'') (Some ''Entire home'') 738886 738889)
        = Float 100"
  proof -
    from w3 have "\<forall>k. (\<forall>d \<in> set (stay_dates 738886 738889). date_multiplier d = k) \<longrightarrow>
        adjusted_price (estimator scenario (Some ''A'') (Some ''Entire home'') 738886 738889)
          = fmul (base_price scenario (Some ''A'') (Some ''Entire home'')) k"
      by blast
    with u have "adjusted_price
        (estimator scenario (Some ''A'') (Some ''Entire home'') 738886 738889)
          = fmul (base_price scenario (Some ''A'') (Some ''Entire home'')) 1"
      by blast
    then show ?thesis by (simp add: base_price_scenario_exact)
  qed
  have n3: "nights (estimator scenario (Some ''A'') (Some ''Entire home'') 738886 738889) = 3"
    using w3 by simp
  show ?thesis using s2 m p2 n2 p3 n3 by simp
qed

lemma median_nonneg:
  assumes "xs \<noteq> []" and "\<And>x. x \<in> set xs \<Longrightarrow> 0 \<le> x"
  shows "\<exists>m. median xs = Float m \<and> 0 \<le> m"
proof -
  let ?s = "sort xs" and ?n = "length xs"
  have pos: "0 < ?n" using assms(1) by simp
  have mem: "\<And>i. i < ?n \<Longrightarrow> 0 \<le> ?s ! i"
  proof -
    fix i assume "i < ?n"
    then have "?s ! i \<in> set ?s" by (metis nth_mem length_sort)
    then show "0 \<le> ?s ! i" using assms(2) by simp
  qed
  show ?thesis
  proof (cases "odd ?n")
    case True
    have "?n div 2 < ?n" using pos by simp
    then have "0 \<le> ?s ! (?n div 2)" by (rule mem)
    then show ?thesis using True by (simp add: median_odd)
  next
    case False
    have a: "0 \<le> ?s ! (?n div 2)" using pos by (intro mem) simp
    have b: "0 \<le> ?s ! (?n div 2 - 1)" using pos by (intro mem) arith
    have "median xs = Float ((?s ! (?n div 2 - 1) + ?s ! (?n div 2)) / 2)"
      using assms(1) False by (simp add: median_even)
    moreover have "0 \<le> (?s ! (?n div 2 - 1) + ?s ! (?n div 2)) / 2"
      using a b by simp
    ultimately show ?thesis by blast
  qed
qed

lemma base_price_subset:
  "\<exists>subset. base_price df c t = median (map price subset)
      \<and> set subset \<subseteq> set df \<and> (df \<noteq> [] \<longrightarrow> subset \<noteq> [])"
proof -
  let ?exact = "filter (\<lambda>r. Some (city r) = c \<and> Some (room_type r) = t) df"
  let ?town = "filter (\<lambda>r. Some (city r) = c) df"
  consider "?exact \<noteq> []" | "?exact = []" "?town \<noteq> []" | "?exact = []" "?town = []"
    by blast
  then show ?thesis
  proof cases
    case 1
    then have "base_price df c t = median (map price ?exact)"
      by (simp add: base_price_def Let_def)
    moreover have "set ?exact \<subseteq> set df" by auto
    ultimately show ?thesis using 1 by blast
  next
    case 2
    then have "base_price df c t = median (map price ?town)"
      by (simp add: base_price_def Let_def)
    moreover have "set ?town \<subseteq> set df" by auto
    ultimately show ?thesis using 2 by blast
  next
    case 3
    then have "base_price df c t = median (map price df)"
      by (simp add: base_price_def Let_def)
    then show ?thesis by blast
  qed
qed

lemma base_price_nonneg:
  assumes "df \<noteq> []" and "\<forall>r \<in> set df. 0 \<le> price r"
  shows "\<exists>b. base_price df c t = Float b \<and> 0 \<le> b"
proof -
  obtain subset where s: "base_price df c t = median (map price subset)"
    "set subset \<subseteq> set df" "subset \<noteq> []"
    using base_price_subset [of df c t] assms(1) by blast
  have "\<exists>m. median (map price subset) = Float m \<and> 0 \<le> m"
  proof (rule median_nonneg)
    show "map price subset \<noteq> []" using s(3) by simp
    fix x assume "x \<in> set (map price subset)"
    then show "0 \<le> x" using s(2) assms(2) by auto
  qed
  then show ?thesis using s(1) by simp
qed

text \<open>
  Claim C7. For a table with at least one row whose prices are all
  non-negative, and a check-out date after the check-in date, the estimate is
  a number, not \<^verbatim>\<open>NaN\<close>, and it is greater than or equal to 0.
\<close>

theorem estimate_nonneg:
  "df \<noteq> [] \<Longrightarrow> \<forall>r \<in> set df. 0 \<le> price r \<Longrightarrow> ci < co \<Longrightarrow>
     \<exists>p. adjusted_price (estimator df c t ci co) = Float p \<and> 0 \<le> p"
proof -
  assume "df \<noteq> []" and "\<forall>r \<in> set df. 0 \<le> price r" and "ci < co"
  then obtain b where b: "base_price df c t = Float b" "0 \<le> b"
    using base_price_nonneg by blast
  have "0 \<le> avg_mult (stay_dates ci co)"
    using avg_mult_bounds [of "stay_dates ci co"] by simp
  then have "0 \<le> b * avg_mult (stay_dates ci co)" using b(2) by simp
  then show ?thesis using b(1) by (simp add: estimator_def)
qed

text \<open>The scenario table and the stay of 2024-01-06 to 2024-01-08.\<close>

theorem estimate_nonneg_witness:
  "scenario \<noteq> [] \<and> 0 \<le> price (scenario ! 0) \<and> 0 \<le> price (scenario ! 1)
   \<and> 0 \<le> price (scenario ! 2) \<and> length scenario = 3 \<and> (738891::int) < 738893
   \<and> (\<exists>p. adjusted_price
             (estimator scenario (Some ''A'') (Some ''Shared room'') 738891 738893) = Float p
          \<and> 0 \<le> p)"
proof -
  have a: "scenario \<noteq> []" by (simp add: scenario_def)
  have b: "\<forall>r \<in> set scenario. 0 \<le> price r" by (simp add: scenario_def)
  have c: "(738891::int) < 738893" by simp
  have d: "0 \<le> price (scenario ! 0) \<and> 0 \<le> price (scenario ! 1)
   \<and> 0 \<le> price (scenario ! 2) \<and> length scenario = 3"
    by (simp add: scenario_def)
  from estimate_nonneg [OF a b c, of "Some ''A''" "Some ''Shared room''"] a c d
  show ?thesis by blast
qed

text \<open>
  Claim C10, as amended. No month is both a summer month and December, so
  the multiplier of a date is one of 1.0, 1.2, 1.3, 1.4, 1.56 and 1.82, and
  lies between 1.0 and 1.82. The average multiplier of a stay lies between 1.0
  and 1.82 too, and the estimate is the base price times it. For every query
  whose base price is a non-negative number, the estimate is at least the
  base price and at most 1.82 times the base price.
\<close>

theorem multiplier_bounds:
  "date_multiplier d \<in> {1, 1.2, 1.3, 1.4, 1.56, 1.82}
   \<and> 1 \<le> date_multiplier d \<and> date_multiplier d \<le> 1.82
   \<and> \<not> (month d \<in> {6, 7, 8} \<and> month d = 12)
   \<and> 1 \<le> avg_mult (stay_dates ci co) \<and> avg_mult (stay_dates ci co) \<le> 1.82
   \<and> adjusted_price (estimator df c t ci co)
       = fmul (base_price df c t) (avg_mult (stay_dates ci co))
   \<and> (\<forall>b. base_price df c t = Float b \<and> 0 \<le> b \<longrightarrow>
         (\<exists>e. adjusted_price (estimator df c t ci co) = Float e \<and> b \<le> e \<and> e \<le> 1.82 * b))"
proof -
  have 1: "date_multiplier d \<in> {1, 1.2, 1.3, 1.4, 1.56, 1.82}"
    by (rule date_multiplier_cases)
  have 2: "\<not> (month d \<in> {6, 7, 8} \<and> month d = 12)" by auto
  have 3: "1 \<le> avg_mult (stay_dates ci co)" "avg_mult (stay_dates ci co) \<le> 1.82"
    using avg_mult_bounds [of "stay_dates ci co"] by simp_all
  have 4: "adjusted_price (estimator df c t ci co)
       = fmul (base_price df c t) (avg_mult (stay_dates ci co))"
    by (simp add: estimator_def)
  have 5: "\<forall>b. base_price df c t = Float b \<and> 0 \<le> b \<longrightarrow>
         (\<exists>e. adjusted_price (estimator df c t ci co) = Float e \<and> b \<le> e \<and> e \<le> 1.82 * b)"
  proof (intro allI impI)
    fix b assume b: "base_price df c t = Float b \<and> 0 \<le> b"
    have lo: "b * 1 \<le> b * avg_mult (stay_dates ci co)"
      using b 3(1) by (intro mult_left_mono) simp_all
    have hi: "b * avg_mult (stay_dates ci co) \<le> b * 1.82"
      using b 3(2) by (intro mult_left_mono) simp_all
    have "adjusted_price (estimator df c t ci co) = Float (b * avg_mult (stay_dates ci co))"
      using b 4 by simp
    then show "\<exists>e. adjusted_price (estimator df c t ci co) = Float e \<and> b \<le> e \<and> e \<le> 1.82 * b"
      using lo hi by (simp add: mult.commute)
  qed
  show ?thesis using 1 2 3 4 5 date_multiplier_ge date_multiplier_le by blast
qed

lemma december_saturday_multiplier: "date_multiplier (ymd2ord 2023 12 2) = 1.82"
  by code_simp

text \<open>
  Saturday 2023-12-02 has the largest multiplier; in the scenario table the
  stay of 2024-01-06 to 2024-01-08 costs between 100 and 182.
\<close>

theorem multiplier_bounds_witness:
  "date_multiplier (ymd2ord 2023 12 2) = 1.82
   \<and> base_price scenario (Some ''A'') (Some ''Entire home'') = Float 100
   \<and> (0::real) \<le> 100
   \<and> (\<exists>e. adjusted_price
             (estimator scenario (Some ''A'') (Some ''Entire home'') 738891 738893) = Float e
          \<and> 100 \<le> e \<and> e \<le> 1.82 * 100)"
proof -
  have b: "base_price scenario (Some ''A'') (Some ''Entire home'') = Float 100 \<and> (0::real) \<le> 100"
    by (simp add: base_price_scenario_exact)
  from multiplier_bounds
    [of "ymd2ord 2023 12 2" 738891 738893 scenario "Some ''A''" "Some ''Entire home''"]
  have "\<forall>b. base_price scenario (Some ''A'') (Some ''Entire home'') = Float b \<and> 0 \<le> b \<longrightarrow>
         (\<exists>e. adjusted_price
                 (estimator scenario (Some ''A'') (Some ''Entire home'') 738891 738893) = Float e
               \<and> b \<le> e \<and> e \<le> 1.82 * b)"
    by blast
  with b have "\<exists>e. adjusted_price
             (estimator scenario (Some ''A'') (Some ''Entire home'') 738891 738893) = Float e
          \<and> 100 \<le> e \<and> e \<le> 1.82 * 100"
    by blast
  then show ?thesis using b december_saturday_multiplier by blast
qed

text \<open>
  Claim C10 as stated fails for a negative base price: on the table whose one
  price is -100, the night of Tuesday 2024-01-02 has the base price -100 and
  the estimate -100, which is more than 1.82 times the base price, -182.
\<close>

theorem negative_base_price_counterexample:
  "base_price negative_table (Some ''A'') (Some ''Entire home'') = Float (- 100)
   \<and> adjusted_price
        (estimator negative_table (Some ''A'') (Some ''Entire home'') 738887 738888)
       = Float (- 100)
   \<and> \<not> ((- 100 :: real) \<le> 1.82 * (- 100))"
proof -
  have b: "base_price negative_table (Some ''A'') (Some ''Entire home'') = Float (- 100)"
    by (simp add: base_price_def negative_table_def median_def Let_def)
  have m: "date_multiplier 738887 = 1"
    using monday_to_wednesday by simp
  have s: "stay_dates 738887 738888 = [738887]"
    by (simp add: stay_dates_def date_range.simps)
  have e: "adjusted_price
        (estimator negative_table (Some ''A'') (Some ''Entire home'') 738887 738888)
       = Float (- 100)"
    by (simp add: estimator_def b s m avg_mult_def)
  show ?thesis using b e by simp
qed

section \<open>The empty table\<close>

lemma base_price_empty: "base_price [] c t = NaN"
  by (simp add: base_price_def median_def)

text \<open>
  Claim C5, as amended. When the table has no row, every subset of the
  fallback chain is empty, the base price is \<^verbatim>\<open>NaN\<close> and so is the estimate,
  for every query. The predictor section on such a table, with both columns,
  a check-out date after the check-in date and the button pressed, is its
  inputs, the button and the success box showing that estimate: no error is
  reported.
\<close>

theorem empty_dataset_gives_nan:
  "base_price [] c t = NaN
   \<and> estimator [] c t ci co = \<lparr>adjusted_price = NaN, nights = co - ci\<rparr>
   \<and> (rows df = [] \<and> ''city'' \<in> set (columns df) \<and> ''room_type'' \<in> set (columns df)
        \<and> check_in s < check_out s \<and> button s \<longrightarrow>
      predictor df s
        = [Subheader_predictor, Selectbox_city, Selectbox_room_type,
           Date_input_check_in, Date_input_check_out, Button,
           Success_box \<lparr>adjusted_price = NaN, nights = check_out s - check_in s\<rparr>
             (room_type_val s) (city_val s)])"
proof -
  have 1: "estimator [] c t ci co = \<lparr>adjusted_price = NaN, nights = co - ci\<rparr>" for c t ci co
    by (simp add: estimator_def base_price_empty)
  have 2: "predictor df s
        = [Subheader_predictor, Selectbox_city, Selectbox_room_type,
           Date_input_check_in, Date_input_check_out, Button,
           Success_box \<lparr>adjusted_price = NaN, nights = check_out s - check_in s\<rparr>
             (room_type_val s) (city_val s)]"
    if "rows df = [] \<and> ''city'' \<in> set (columns df) \<and> ''room_type'' \<in> set (columns df)
        \<and> check_in s < check_out s \<and> button s"
    using that by (simp add: predictor_def 1)
  show ?thesis using base_price_empty 1 2 by blast
qed

text \<open>A stay of three nights on the table with no row.\<close>

theorem empty_dataset_gives_nan_witness:
  "rows empty_table = []
   \<and> check_in (empty_session \<lparr>check_out := 738890\<rparr>)
       < check_out (empty_session \<lparr>check_out := 738890\<rparr>)
   \<and> button (empty_session \<lparr>check_out := 738890\<rparr>)
   \<and> predictor empty_table (empty_session \<lparr>check_out := 738890\<rparr>)
       = [Subheader_predictor, Selectbox_city, Selectbox_room_type,
          Date_input_check_in, Date_input_check_out, Button,
          Success_box \<lparr>adjusted_price = NaN, nights = 3\<rparr> None None]"
proof -
  let ?s = "empty_session \<lparr>check_out := 738890\<rparr>"
  have h: "rows empty_table = []
        \<and> ''city'' \<in> set (columns empty_table) \<and> ''room_type'' \<in> set (columns empty_table)
        \<and> check_in ?s < check_out ?s \<and> button ?s"
    by (simp add: empty_session_def empty_table_def)
  from empty_dataset_gives_nan [of None None 0 0 empty_table ?s] h
  have "predictor empty_table ?s
        = [Subheader_predictor, Selectbox_city, Selectbox_room_type,
           Date_input_check_in, Date_input_check_out, Button,
           Success_box \<lparr>adjusted_price = NaN, nights = check_out ?s - check_in ?s\<rparr>
             (room_type_val ?s) (city_val ?s)]"
    by blast
  then show ?thesis using h by (simp add: empty_session_def)
qed

text \<open>
  Claim C5 as stated fails: on the table with no row, with no city and no
  room type to select and a stay of one night, the base price and the
  estimate are \<^verbatim>\<open>NaN\<close>, and the predictor section reports no error: it ends
  with a success box whose price is \<^verbatim>\<open>NaN\<close>.
\<close>

theorem empty_dataset_no_error_counterexample:
  "base_price (rows empty_table) None None = NaN
   \<and> adjusted_price (estimator (rows empty_table) None None 738887 738888) = NaN
   \<and> predictor empty_table empty_session
       = [Subheader_predictor, Selectbox_city, Selectbox_room_type,
          Date_input_check_in, Date_input_check_out, Button,
          Success_box \<lparr>adjusted_price = NaN, nights = 1\<rparr> None None]"
  by (simp add: empty_session_def empty_table_def predictor_def
      estimator_def base_price_def median_def)

section \<open>The guards of the predictor section\<close>

text \<open>
  Claim C6. When the check-out date is not after the check-in date (the same
  date included), the predictor section is its four inputs and the warning:
  it is the same whether the button is pressed or not, it offers no button and
  it holds no estimate, and so does the whole run. A success box is shown
  exactly when both columns are there, the check-out date is after the
  check-in date and the button is pressed.
\<close>

theorem invalid_range_withheld:
  "(''city'' \<in> set (columns df) \<and> ''room_type'' \<in> set (columns df)
      \<and> check_out s \<le> check_in s \<longrightarrow>
      predictor df s
        = [Subheader_predictor, Selectbox_city, Selectbox_room_type,
           Date_input_check_in, Date_input_check_out,
           Warning_box Check_out_must_be_after_check_in])
   \<and> (check_out s \<le> check_in s \<longrightarrow>
        predictor df (s\<lparr>button := True\<rparr>) = predictor df (s\<lparr>button := False\<rparr>)
        \<and> Button \<notin> set (predictor df s)
        \<and> \<not> list_ex is_success (predictor df s))
   \<and> (check_out s \<le> check_in s \<and> csv s = Some df \<and> ''price'' \<in> set (columns df)
        \<longrightarrow> (\<exists>els. run s = Inr els \<and> Button \<notin> set els \<and> \<not> list_ex is_success els))
   \<and> list_ex is_success (predictor df s)
       = (''city'' \<in> set (columns df) \<and> ''room_type'' \<in> set (columns df)
          \<and> check_in s < check_out s \<and> button s)"
proof -
  have 1: "predictor df s
        = [Subheader_predictor, Selectbox_city, Selectbox_room_type,
           Date_input_check_in, Date_input_check_out,
           Warning_box Check_out_must_be_after_check_in]"
    if "''city'' \<in> set (columns df) \<and> ''room_type'' \<in> set (columns df)
      \<and> check_out s \<le> check_in s"
    using that by (simp add: predictor_def)
  have 2: "predictor df (s\<lparr>button := True\<rparr>) = predictor df (s\<lparr>button := False\<rparr>)
        \<and> Button \<notin> set (predictor df s)
        \<and> \<not> list_ex is_success (predictor df s)"
    if "check_out s \<le> check_in s"
    using that by (simp add: predictor_def)
  have 3: "\<exists>els. run s = Inr els \<and> Button \<notin> set els \<and> \<not> list_ex is_success els"
    if h: "check_out s \<le> check_in s \<and> csv s = Some df \<and> ''price'' \<in> set (columns df)"
  proof -
    have "run s = Inr ([Title, Loaded_text (length (rows df)) (length (columns df)), Table_head]
                    @ charts df @ predictor df s)"
      using h by (simp add: run_def load_data_def)
    moreover have "Button \<notin> set (charts df) \<and> \<not> list_ex is_success (charts df)"
      by (simp add: charts_def)
    ultimately show ?thesis using 2 h by simp
  qed
  have 4: "list_ex is_success (predictor df s)
       = (''city'' \<in> set (columns df) \<and> ''room_type'' \<in> set (columns df)
          \<and> check_in s < check_out s \<and> button s)"
    by (auto simp: predictor_def)
  show ?thesis using 1 2 3 4 by blast
qed

text \<open>Check-in and check-out both on 2024-01-05, the button pressed.\<close>

theorem invalid_range_withheld_witness:
  "check_out same_day_session \<le> check_in same_day_session
   \<and> check_out same_day_session = check_in same_day_session
   \<and> button same_day_session
   \<and> predictor scenario_table same_day_session
       = [Subheader_predictor, Selectbox_city, Selectbox_room_type,
          Date_input_check_in, Date_input_check_out,
          Warning_box Check_out_must_be_after_check_in]
   \<and> run same_day_session
       = Inr [Title, Loaded_text 3 3, Table_head, Subheader_charts,
              Plotly_chart Price_histogram, Plotly_chart Room_type_bar,
              Plotly_chart Room_type_pie, Plotly_chart City_bar,
              Subheader_predictor, Selectbox_city, Selectbox_room_type,
              Date_input_check_in, Date_input_check_out,
              Warning_box Check_out_must_be_after_check_in]"
proof -
  have h: "''city'' \<in> set (columns scenario_table)
      \<and> ''room_type'' \<in> set (columns scenario_table)
      \<and> check_out same_day_session \<le> check_in same_day_session"
    by (simp add: scenario_table_def same_day_session_def)
  have p: "predictor scenario_table same_day_session
       = [Subheader_predictor, Selectbox_city, Selectbox_room_type,
          Date_input_check_in, Date_input_check_out,
          Warning_box Check_out_must_be_after_check_in]"
    using invalid_range_withheld [of scenario_table same_day_session] h by blast
  have r: "run same_day_session
       = Inr ([Title, Loaded_text 3 3, Table_head] @ charts scenario_table
              @ predictor scenario_table same_day_session)"
    by (simp add: run_def load_data_def same_day_session_def scenario_table_def scenario_def)
  have c: "charts scenario_table = [Subheader_charts,
              Plotly_chart Price_histogram, Plotly_chart Room_type_bar,
              Plotly_chart Room_type_pie, Plotly_chart City_bar]"
    by (simp add: charts_def scenario_table_def)
  have b: "check_out same_day_session = check_in same_day_session \<and> button same_day_session"
    by (simp add: same_day_session_def)
  show ?thesis using h p r c b by simp
qed

text \<open>
  Claim C9. When the table lacks the city column or the room type column,
  the predictor section is its heading and an information box. For a table
  with a price column the run then raises nothing: it shows the heading, the
  charts and that information box, the histogram among the charts, and the
  charts by room type and by city exactly when their column is there.
\<close>

theorem missing_columns_disable_predictor:
  "(''city'' \<notin> set (columns df) \<or> ''room_type'' \<notin> set (columns df) \<longrightarrow>
      predictor df s = [Subheader_predictor, Info_box Need_city_and_room_type])
   \<and> (csv s = Some df \<and> ''price'' \<in> set (columns df)
        \<and> (''city'' \<notin> set (columns df) \<or> ''room_type'' \<notin> set (columns df)) \<longrightarrow>
      run s = Inr ([Title, Loaded_text (length (rows df)) (length (columns df)), Table_head]
                   @ charts df
                   @ [Subheader_predictor, Info_box Need_city_and_room_type])
      \<and> Plotly_chart Price_histogram \<in> set (charts df)
      \<and> (Plotly_chart Room_type_bar \<in> set (charts df)) = (''room_type'' \<in> set (columns df))
      \<and> (Plotly_chart Room_type_pie \<in> set (charts df)) = (''room_type'' \<in> set (columns df))
      \<and> (Plotly_chart City_bar \<in> set (charts df)) = (''city'' \<in> set (columns df)))"
proof -
  have 1: "predictor df s = [Subheader_predictor, Info_box Need_city_and_room_type]"
    if "''city'' \<notin> set (columns df) \<or> ''room_type'' \<notin> set (columns df)"
    using that by (auto simp: predictor_def)
  have 2: "run s = Inr ([Title, Loaded_text (length (rows df)) (length (columns df)), Table_head]
                   @ charts df
                   @ [Subheader_predictor, Info_box Need_city_and_room_type])"
    if "csv s = Some df \<and> ''price'' \<in> set (columns df)
        \<and> (''city'' \<notin> set (columns df) \<or> ''room_type'' \<notin> set (columns df))"
    using that 1 by (simp add: run_def load_data_def)
  have 3: "Plotly_chart Price_histogram \<in> set (charts df)
      \<and> (Plotly_chart Room_type_bar \<in> set (charts df)) = (''room_type'' \<in> set (columns df))
      \<and> (Plotly_chart Room_type_pie \<in> set (charts df)) = (''room_type'' \<in> set (columns df))
      \<and> (Plotly_chart City_bar \<in> set (charts df)) = (''city'' \<in> set (columns df))"
    by (simp add: charts_def)
  show ?thesis using 1 2 3 by blast
qed

text \<open>The scenario table without its city column.\<close>

theorem missing_columns_disable_predictor_witness:
  "''city'' \<notin> set (columns no_city_table)
   \<and> ''price'' \<in> set (columns no_city_table)
   \<and> predictor no_city_table no_city_session
       = [Subheader_predictor, Info_box Need_city_and_room_type]
   \<and> run no_city_session
       = Inr [Title, Loaded_text 3 2, Table_head, Subheader_charts,
              Plotly_chart Price_histogram, Plotly_chart Room_type_bar,
              Plotly_chart Room_type_pie, Info_box City_column_not_found,
              Subheader_predictor, Info_box Need_city_and_room_type]"
proof -
  have h: "csv no_city_session = Some no_city_table
        \<and> ''price'' \<in> set (columns no_city_table)
        \<and> (''city'' \<notin> set (columns no_city_table)
            \<or> ''room_type'' \<notin> set (columns no_city_table))"
    by (simp add: no_city_session_def no_city_table_def)
  have n: "''city'' \<notin> set (columns no_city_table)"
    by (simp add: no_city_table_def)
  have c: "charts no_city_table = [Subheader_charts,
              Plotly_chart Price_histogram, Plotly_chart Room_type_bar,
              Plotly_chart Room_type_pie, Info_box City_column_not_found]"
    by (simp add: charts_def no_city_table_def)
  have l: "length (rows no_city_table) = 3 \<and> length (columns no_city_table) = 2"
    by (simp add: no_city_table_def scenario_def)
  note th = missing_columns_disable_predictor [of no_city_table no_city_session]
  have p: "predictor no_city_table no_city_session
       = [Subheader_predictor, Info_box Need_city_and_room_type]"
    using th h by blast
  have r: "run no_city_session
      = Inr ([Title, Loaded_text (length (rows no_city_table)) (length (columns no_city_table)),
              Table_head]
             @ charts no_city_table
             @ [Subheader_predictor, Info_box Need_city_and_room_type])"
    using th h by blast
  show ?thesis using h n p r c l by simp
qed

end
